theory Spec2Isabelle
  imports Complex_Main
begin

section \<open>Survival tier of a balance\<close>

text \<open>
  The status computed by \<open>showBalance\<close> and the initial state computed by \<open>run\<close>
  take four values of the source's \<open>AgentState\<close>: \<open>"running"\<close> (the tier the
  specification calls \<open>normal\<close>), \<open>"low_compute"\<close>, \<open>"critical"\<close> and \<open>"dead"\<close>.
  Balances and thresholds are JavaScript numbers; they are modelled as rationals, which
  covers every finite number and leaves \<open>NaN\<close> and the infinities out; the
  comparisons of the two functions are exact on these values. The member \<open>critical\<close> of
  the thresholds is \<open>critical_min\<close> here, as \<open>critical\<close> names the state.
\<close>

datatype AgentState = running | low_compute | critical | dead

record survivalThresholds =
  normal :: rat
  lowCompute :: rat
  critical_min :: rat

text \<open>
  \<open>showBalance\<close>: the status starts as \<open>"dead"\<close> and an if-chain tests the thresholds
  from the highest down with \<open>>=\<close>.
\<close>

definition showBalance_status :: "survivalThresholds \<Rightarrow> rat \<Rightarrow> AgentState" where
  "showBalance_status t balance =
     (if balance \<ge> normal t then running
      else if balance \<ge> lowCompute t then low_compute
      else if balance \<ge> critical_min t then critical
      else dead)"

text \<open>
  \<open>run\<close>: the initial state starts as \<open>"running"\<close> and an if-chain tests the thresholds
  from the lowest up with \<open><\<close>. (On \<open>"dead"\<close> the process exits; the value computed before
  the exit is what is modelled.)
\<close>

definition run_initialState :: "survivalThresholds \<Rightarrow> rat \<Rightarrow> AgentState" where
  "run_initialState t balance =
     (if balance < critical_min t then dead
      else if balance < lowCompute t then critical
      else if balance < normal t then low_compute
      else running)"

text \<open>The order of ascending distress: normal, low compute, critical, dead.\<close>

fun distress :: "AgentState \<Rightarrow> nat" where
  "distress running = 0"
| "distress low_compute = 1"
| "distress critical = 2"
| "distress dead = 3"

text \<open>The default thresholds of \<open>DEFAULT_CONFIG\<close>: 10, 5 and 1 USDC.\<close>

definition DEFAULT_thresholds :: survivalThresholds where
  "DEFAULT_thresholds = \<lparr> normal = 10, lowCompute = 5, critical_min = 1 \<rparr>"

section \<open>JavaScript numbers\<close>

text \<open>
  Where the source computes with numbers (the product and the ceiling of the payment
  challenge, the sums of the revenue tracker), a number is an IEEE 754 binary64 value:
  \<open>Finite r\<close> is the finite double of the rational value \<open>r\<close>, and the two zeros are
  both \<open>Finite 0\<close>, since nothing modelled here tells them apart (\<open>String(-0)\<close> is
  \<open>"0"\<close>).
\<close>

datatype number = Finite rat | PlusInfinity | MinusInfinity | NaN

definition pow2 :: "int \<Rightarrow> rat" where
  "pow2 e = (if e \<ge> 0 then 2 ^ nat e else 1 / 2 ^ nat (- e))"

text \<open>
  The exponent of the last place of the double nearest to a positive \<open>x\<close>: \<open>e - 52\<close>
  for the largest \<open>e\<close> from \<open>-1022\<close> to \<open>1023\<close> with \<open>2^e \<le> x\<close>, and \<open>-1074\<close>, the
  last place of the subnormal numbers, when there is none.
\<close>

fun ulp_search :: "nat \<Rightarrow> rat \<Rightarrow> int" where
  "ulp_search 0 x = - 1074"
| "ulp_search (Suc n) x =
     (if pow2 (int n - 1022) \<le> x then int n - 1074 else ulp_search n x)"

definition ulp_exponent :: "rat \<Rightarrow> int" where
  "ulp_exponent x = ulp_search 2046 \<bar>x\<bar>"

text \<open>The nearest integer to a rational that is not negative; a tie goes to the even one.\<close>

definition round_half_even :: "rat \<Rightarrow> int" where
  "round_half_even m =
     (if m - of_int \<lfloor>m\<rfloor> < 1 / 2 then \<lfloor>m\<rfloor>
      else if m - of_int \<lfloor>m\<rfloor> > 1 / 2 then \<lfloor>m\<rfloor> + 1
      else if even \<lfloor>m\<rfloor> then \<lfloor>m\<rfloor> else \<lfloor>m\<rfloor> + 1)"

text \<open>
  Rounding of an exact value to a double, to nearest with ties to even: the significand
  has 53 bits (fewer in the subnormal range), and a result of \<open>2^1024\<close> or more is an
  infinity.
\<close>

definition round_double :: "rat \<Rightarrow> number" where
  "round_double x =
     (let q = ulp_exponent x;
          y = of_int (round_half_even (\<bar>x\<bar> / pow2 q)) * pow2 q
      in if y \<ge> pow2 1024 then (if x < 0 then MinusInfinity else PlusInfinity)
         else Finite (if x < 0 then - y else y))"

text \<open>A decimal literal of the source, such as \<open>0.001\<close>, is the double nearest to it.\<close>

definition double_literal :: "rat \<Rightarrow> number" where
  "double_literal r = round_double r"

fun is_negative :: "number \<Rightarrow> bool" where
  "is_negative (Finite r) = (r < 0)"
| "is_negative MinusInfinity = True"
| "is_negative PlusInfinity = False"
| "is_negative NaN = False"

text \<open>
  \<open>x * y\<close>: the exact product of two finite numbers, rounded once; an infinity times
  zero is \<open>NaN\<close>, and an infinity times anything else is an infinity with the product's
  sign.
\<close>

fun number_times :: "number \<Rightarrow> number \<Rightarrow> number" where
  "number_times NaN y = NaN"
| "number_times x NaN = NaN"
| "number_times (Finite a) (Finite b) = round_double (a * b)"
| "number_times x y =
     (if x = Finite 0 \<or> y = Finite 0 then NaN
      else if is_negative x = is_negative y then PlusInfinity else MinusInfinity)"

text \<open>
  \<open>x + y\<close>: the exact sum of two finite numbers, rounded once; the two infinities add
  up to \<open>NaN\<close>, and an infinity plus anything else is that infinity.
\<close>

fun number_plus :: "number \<Rightarrow> number \<Rightarrow> number" where
  "number_plus NaN y = NaN"
| "number_plus x NaN = NaN"
| "number_plus (Finite a) (Finite b) = round_double (a + b)"
| "number_plus PlusInfinity MinusInfinity = NaN"
| "number_plus MinusInfinity PlusInfinity = NaN"
| "number_plus (Finite a) y = y"
| "number_plus x y = x"

text \<open>\<open>Math.ceil\<close>: exact on a finite number, the identity on the others.\<close>

fun Math_ceil :: "number \<Rightarrow> number" where
  "Math_ceil (Finite r) = Finite (of_int \<lceil>r\<rceil>)"
| "Math_ceil x = x"

section \<open>Values shared by the modules\<close>

text \<open>An exception thrown by the source: \<open>new Error(message)\<close>.\<close>

datatype error = Error string

text \<open>
  A JSON value, as \<open>JSON.parse\<close> returns it and \<open>JSON.stringify\<close> takes it. An object
  keeps its members in the order the source writes them.
\<close>

datatype json =
    JNull
  | JBool bool
  | JNumber rat
  | JString string
  | JArray "json list"
  | JObject "(string \<times> json) list"

text \<open>
  The two JSON built-ins of the JavaScript runtime are parameters of the model, and so
  is the text of a number that is not an integer of magnitude below \<open>10^21\<close> (a
  fraction, or an integer written with an exponent).
  \<open>JSON_parse\<close> gives \<open>None\<close> where \<open>JSON.parse\<close> throws a \<open>SyntaxError\<close>.
\<close>

record js_runtime =
  JSON_stringify :: "json \<Rightarrow> string"
  JSON_parse :: "string \<Rightarrow> json option"
  Number_toString :: "rat \<Rightarrow> string"

text \<open>A number as a member of a JSON value: \<open>NaN\<close> and the infinities are written \<open>null\<close>.\<close>

fun json_of_number :: "number \<Rightarrow> json" where
  "json_of_number (Finite r) = JNumber r"
| "json_of_number x = JNull"

text \<open>Member and element access on a JSON value; \<open>None\<close> is JavaScript's \<open>undefined\<close>.\<close>

fun member :: "string \<Rightarrow> json \<Rightarrow> json option" where
  "member k (JObject kvs) = map_of kvs k"
| "member k _ = None"

fun element :: "nat \<Rightarrow> json \<Rightarrow> json option" where
  "element i (JArray xs) = (if i < length xs then Some (xs ! i) else None)"
| "element i _ = None"

text \<open>\<open>String(n)\<close> of an integer \<open>n\<close>: its decimal digits, with a minus sign below zero.\<close>

definition digit_char :: "nat \<Rightarrow> char" where
  "digit_char d = ''0123456789'' ! d"

fun digits :: "nat \<Rightarrow> string" where
  "digits n = (if n < 10 then [digit_char n] else digits (n div 10) @ [digit_char (n mod 10)])"

declare digits.simps [simp del]

definition String_int :: "int \<Rightarrow> string" where
  "String_int i = (if i < 0 then CHR ''-'' # digits (nat (- i)) else digits (nat i))"

text \<open>
  \<open>String(x)\<close> of a number: the names of \<open>NaN\<close> and of the infinities, the decimal
  digits of an integer of magnitude below \<open>10^21\<close>, and the runtime's text otherwise.
\<close>

fun String_number :: "js_runtime \<Rightarrow> number \<Rightarrow> string" where
  "String_number rt NaN = ''NaN''"
| "String_number rt PlusInfinity = ''Infinity''"
| "String_number rt MinusInfinity = ''-Infinity''"
| "String_number rt (Finite r) =
     (if of_int \<lfloor>r\<rfloor> = r \<and> \<bar>r\<bar> < 10 ^ 21 then String_int \<lfloor>r\<rfloor>
      else Number_toString rt r)"

section \<open>Inference providers\<close>

text \<open>
  \<open>ProviderConfig\<close> and \<open>InferenceProviders\<close>. An optional member is an \<open>option\<close>;
  a token count is an integer.
\<close>

record ProviderConfig =
  name :: string
  apiUrl :: string
  apiKey :: string
  defaultModel :: string
  maxTokens :: "int option"

record InferenceProviders =
  deepseek :: "ProviderConfig option"
  tongyi :: "ProviderConfig option"
  openai :: "ProviderConfig option"
  anthropic :: "ProviderConfig option"
  custom :: "ProviderConfig option"

text \<open>\<open>a || b\<close> on optional objects: the first one that is defined.\<close>

fun or_else :: "'a option \<Rightarrow> 'a option \<Rightarrow> 'a option" where
  "or_else (Some a) b = Some a"
| "or_else None b = b"

text \<open>\<open>n || d\<close> on an optional number: \<open>d\<close> when \<open>n\<close> is undefined or zero.\<close>

fun number_or :: "int option \<Rightarrow> int \<Rightarrow> int" where
  "number_or None d = d"
| "number_or (Some n) d = (if n = 0 then d else n)"

text \<open>
  The closure of \<open>createMultiProviderClient\<close>: the constants \<open>providers\<close> and
  \<open>primaryProvider\<close>, and the three variables \<open>currentProvider\<close>, \<open>currentModel\<close> and
  \<open>maxTokens\<close> (here \<open>currentMaxTokens\<close>, as \<open>maxTokens\<close> names the member of
  \<open>ProviderConfig\<close>). Only \<open>setLowComputeMode\<close> assigns to the variables; \<open>chat\<close> and
  \<open>getDefaultModel\<close> read them.
\<close>

record router =
  providers :: InferenceProviders
  primaryProvider :: ProviderConfig
  currentProvider :: ProviderConfig
  currentModel :: string
  currentMaxTokens :: int

definition first_available :: "InferenceProviders \<Rightarrow> ProviderConfig option" where
  "first_available ps =
     or_else (deepseek ps) (or_else (tongyi ps) (or_else (openai ps)
       (or_else (anthropic ps) (custom ps))))"

definition createMultiProviderClient :: "InferenceProviders \<Rightarrow> error + router" where
  "createMultiProviderClient ps =
     (case first_available ps of
        None \<Rightarrow> Inl (Error ''No inference provider configured'')
      | Some p \<Rightarrow>
          Inr \<lparr> providers = ps, primaryProvider = p, currentProvider = p,
                currentModel = defaultModel p,
                currentMaxTokens = number_or (maxTokens p) 4096 \<rparr>)"

definition setLowComputeMode :: "bool \<Rightarrow> router \<Rightarrow> router" where
  "setLowComputeMode enabled r =
     (if enabled then
        (case deepseek (providers r) of
           Some d \<Rightarrow> r \<lparr> currentProvider := d, currentModel := ''deepseek-chat'' \<rparr>
         | None \<Rightarrow>
             (case tongyi (providers r) of
                Some t \<Rightarrow> r \<lparr> currentProvider := t, currentModel := ''qwen-turbo'' \<rparr>
              | None \<Rightarrow> r))
        \<lparr> currentMaxTokens := 2048 \<rparr>
      else
        r \<lparr> currentProvider := primaryProvider r,
            currentModel := defaultModel (primaryProvider r),
            currentMaxTokens := number_or (maxTokens (primaryProvider r)) 4096 \<rparr>)"

definition getDefaultModel :: "router \<Rightarrow> string" where
  "getDefaultModel r = currentModel r"

text \<open>The router after a sequence of \<open>setLowComputeMode\<close> calls, the first call first.\<close>

fun after_calls :: "bool list \<Rightarrow> router \<Rightarrow> router" where
  "after_calls [] r = r"
| "after_calls (enabled # rest) r = after_calls rest (setLowComputeMode enabled r)"

text \<open>
  An example: a configuration with an OpenAI provider only, and the router that
  \<open>createMultiProviderClient\<close> builds from it.
\<close>

definition example_openai :: ProviderConfig where
  "example_openai =
     \<lparr> name = ''openai'', apiUrl = ''https://api.openai.com'', apiKey = ''sk-test'',
       defaultModel = ''gpt-4o-mini'', maxTokens = Some 8000 \<rparr>"

definition openai_only :: InferenceProviders where
  "openai_only =
     \<lparr> deepseek = None, tongyi = None, openai = Some example_openai,
       anthropic = None, custom = None \<rparr>"

definition openai_only_router :: router where
  "openai_only_router =
     \<lparr> providers = openai_only, primaryProvider = example_openai,
       currentProvider = example_openai, currentModel = ''gpt-4o-mini'',
       currentMaxTokens = 8000 \<rparr>"

section \<open>The Anthropic request\<close>

record InferenceToolCall =
  call_id :: string
  function_name :: string
  function_arguments :: string

record ChatMessage =
  role :: string
  content :: string
  msg_name :: "string option"
  tool_calls :: "InferenceToolCall list option"
  tool_call_id :: "string option"

record InferenceToolDefinition =
  tool_name :: string
  tool_description :: string
  tool_parameters :: json

definition newline :: string where
  "newline = [CHR 0x0A]"

text \<open>
  The loop of \<open>chatViaAnthropic\<close> over \<open>params.messages\<close>, with its two accumulators:
  a system entry is appended to \<open>systemPrompt\<close>, after a newline when \<open>systemPrompt\<close> is
  not empty so far; any other entry is pushed onto \<open>nonSystemMessages\<close>.
\<close>

fun extract_system :: "ChatMessage list \<Rightarrow> string \<Rightarrow> ChatMessage list
    \<Rightarrow> string \<times> ChatMessage list" where
  "extract_system [] systemPrompt nonSystemMessages = (systemPrompt, nonSystemMessages)"
| "extract_system (msg # msgs) systemPrompt nonSystemMessages =
     (if role msg = ''system''
      then extract_system msgs
             (systemPrompt @ (if systemPrompt \<noteq> [] then newline else []) @ content msg)
             nonSystemMessages
      else extract_system msgs systemPrompt (nonSystemMessages @ [msg]))"

record anthropic_message =
  a_role :: string
  a_content :: string

record anthropic_tool =
  at_name :: string
  at_description :: string
  at_input_schema :: json

text \<open>
  The request body. \<open>system\<close>, \<open>temperature\<close> and \<open>tools\<close> are set only under the
  source's conditions and are absent (\<open>None\<close>) otherwise.
\<close>

record anthropic_body =
  body_model :: string
  body_max_tokens :: int
  body_messages :: "anthropic_message list"
  body_system :: "string option"
  body_temperature :: "rat option"
  body_tools :: "anthropic_tool list option"

definition remap_role :: "ChatMessage \<Rightarrow> anthropic_message" where
  "remap_role msg =
     \<lparr> a_role = (if role msg = ''assistant'' then ''assistant'' else ''user''),
       a_content = content msg \<rparr>"

definition chatViaAnthropic_body :: "string \<Rightarrow> int \<Rightarrow> ChatMessage list \<Rightarrow>
    InferenceToolDefinition list option \<Rightarrow> rat option \<Rightarrow> anthropic_body" where
  "chatViaAnthropic_body model tokenLimit messages tools temperature =
     (case extract_system messages [] [] of
        (systemPrompt, nonSystemMessages) \<Rightarrow>
          \<lparr> body_model = model,
            body_max_tokens = tokenLimit,
            body_messages = map remap_role nonSystemMessages,
            body_system = (if systemPrompt \<noteq> [] then Some systemPrompt else None),
            body_temperature = temperature,
            body_tools =
              (case tools of
                 None \<Rightarrow> None
               | Some ts \<Rightarrow>
                   if length ts > 0
                   then Some (map (\<lambda>t. \<lparr> at_name = tool_name t,
                                           at_description = tool_description t,
                                           at_input_schema = tool_parameters t \<rparr>) ts)
                   else None) \<rparr>)"

text \<open>
  What the claim about the system field compares with: the entries joined with one
  newline between consecutive entries.
\<close>

fun join_newline :: "string list \<Rightarrow> string" where
  "join_newline [] = []"
| "join_newline [s] = s"
| "join_newline (s # t # rest) = s @ newline @ join_newline (t # rest)"

definition system_contents :: "ChatMessage list \<Rightarrow> string list" where
  "system_contents messages = map content (filter (\<lambda>m. role m = ''system'') messages)"

text \<open>A message with a role and a content and no other member, for the examples.\<close>

definition plain_message :: "string \<Rightarrow> string \<Rightarrow> ChatMessage" where
  "plain_message r c =
     \<lparr> role = r, content = c, msg_name = None, tool_calls = None, tool_call_id = None \<rparr>"

section \<open>Token usage of a backend response\<close>

record TokenUsage =
  promptTokens :: int
  completionTokens :: int
  totalTokens :: int

text \<open>The \<open>usage\<close> member of an OpenAI-compatible response; every member may be absent.\<close>

record openai_usage =
  prompt_tokens :: "int option"
  completion_tokens :: "int option"
  total_tokens :: "int option"

record openai_message =
  om_role :: string
  om_content :: "string option"
  om_tool_calls :: "InferenceToolCall list option"

record openai_choice =
  oc_message :: openai_message
  oc_finish_reason :: "string option"

record openai_data =
  od_id :: "string option"
  od_model :: "string option"
  od_choices :: "openai_choice list option"
  od_usage :: "openai_usage option"

text \<open>The HTTP response of a backend: \<open>resp.ok\<close>, \<open>resp.status\<close>, the text and the JSON.\<close>

record 'd http_response =
  ok :: bool
  http_status :: nat
  http_text :: string
  http_json :: 'd

record InferenceResponse =
  ir_id :: string
  ir_model :: string
  ir_role :: string
  ir_content :: string
  ir_toolCalls :: "InferenceToolCall list option"
  ir_usage :: TokenUsage
  ir_finishReason :: string

text \<open>\<open>data.usage?.field || 0\<close>.\<close>

definition usage_field :: "'u option \<Rightarrow> ('u \<Rightarrow> int option) \<Rightarrow> int" where
  "usage_field usage field =
     (case usage of None \<Rightarrow> 0 | Some u \<Rightarrow> number_or (field u) 0)"

text \<open>\<open>s || d\<close> on an optional string: \<open>d\<close> when \<open>s\<close> is undefined or empty.\<close>

fun string_or :: "string option \<Rightarrow> string \<Rightarrow> string" where
  "string_or None d = d"
| "string_or (Some s) d = (if s = [] then d else s)"

definition openai_usage_record :: "openai_data \<Rightarrow> TokenUsage" where
  "openai_usage_record data =
     \<lparr> promptTokens = usage_field (od_usage data) prompt_tokens,
       completionTokens = usage_field (od_usage data) completion_tokens,
       totalTokens = usage_field (od_usage data) total_tokens \<rparr>"

text \<open>
  \<open>chatViaOpenAiCompatible\<close> from the HTTP response on: a response that is not ok and
  a response without a first choice throw.
\<close>

definition chatViaOpenAiCompatible :: "string \<Rightarrow> openai_data http_response
    \<Rightarrow> error + InferenceResponse" where
  "chatViaOpenAiCompatible model resp =
     (if \<not> ok resp
      then Inl (Error (''Inference error: '' @ String_int (int (http_status resp))
                        @ '': '' @ http_text resp))
      else
        (case od_choices (http_json resp) of
           None \<Rightarrow> Inl (Error ''No completion choice returned from inference'')
         | Some [] \<Rightarrow> Inl (Error ''No completion choice returned from inference'')
         | Some (choice # _) \<Rightarrow>
             Inr \<lparr> ir_id = string_or (od_id (http_json resp)) [],
                   ir_model = string_or (od_model (http_json resp)) model,
                   ir_role = om_role (oc_message choice),
                   ir_content = string_or (om_content (oc_message choice)) [],
                   ir_toolCalls = om_tool_calls (oc_message choice),
                   ir_usage = openai_usage_record (http_json resp),
                   ir_finishReason = string_or (oc_finish_reason choice) ''stop'' \<rparr>))"

text \<open>The Anthropic response: content blocks and a usage with its own member names.\<close>

record anthropic_usage =
  input_tokens :: "int option"
  output_tokens :: "int option"

datatype anthropic_block =
    Text_block string
  | Tool_use_block string string json
  | Other_block

record anthropic_data =
  ad_id :: "string option"
  ad_model :: "string option"
  ad_content :: "anthropic_block list option"
  ad_usage :: "anthropic_usage option"
  ad_stop_reason :: "string option"

definition anthropic_usage_record :: "anthropic_data \<Rightarrow> TokenUsage" where
  "anthropic_usage_record data =
     \<lparr> promptTokens = usage_field (ad_usage data) input_tokens,
       completionTokens = usage_field (ad_usage data) output_tokens,
       totalTokens = usage_field (ad_usage data) input_tokens
                     + usage_field (ad_usage data) output_tokens \<rparr>"

text \<open>The loop over \<open>data.content || []\<close>, collecting the text and the tool calls.\<close>

fun collect_blocks :: "js_runtime \<Rightarrow> anthropic_block list \<Rightarrow> string \<Rightarrow>
    InferenceToolCall list \<Rightarrow> string \<times> InferenceToolCall list" where
  "collect_blocks rt [] text toolCalls = (text, toolCalls)"
| "collect_blocks rt (Text_block t # bs) text toolCalls =
     collect_blocks rt bs (text @ t) toolCalls"
| "collect_blocks rt (Tool_use_block i n input # bs) text toolCalls =
     collect_blocks rt bs text
       (toolCalls @ [\<lparr> call_id = i, function_name = n,
                        function_arguments = JSON_stringify rt input \<rparr>])"
| "collect_blocks rt (Other_block # bs) text toolCalls = collect_blocks rt bs text toolCalls"

definition chatViaAnthropic :: "js_runtime \<Rightarrow> string \<Rightarrow> anthropic_data http_response
    \<Rightarrow> error + InferenceResponse" where
  "chatViaAnthropic rt model resp =
     (if \<not> ok resp
      then Inl (Error (''Anthropic error: '' @ String_int (int (http_status resp))
                        @ '': '' @ http_text resp))
      else
        (case collect_blocks rt
                (case ad_content (http_json resp) of None \<Rightarrow> [] | Some bs \<Rightarrow> bs) [] [] of
           (text, toolCalls) \<Rightarrow>
             Inr \<lparr> ir_id = string_or (ad_id (http_json resp)) [],
                   ir_model = string_or (ad_model (http_json resp)) model,
                   ir_role = ''assistant'',
                   ir_content = text,
                   ir_toolCalls = (if length toolCalls > 0 then Some toolCalls else None),
                   ir_usage = anthropic_usage_record (http_json resp),
                   ir_finishReason = string_or (ad_stop_reason (http_json resp)) ''stop'' \<rparr>))"

text \<open>
  An example: an OpenAI-compatible response with a first choice and a usage that has
  \<open>prompt_tokens\<close> and \<open>completion_tokens\<close> and no \<open>total_tokens\<close>; and an Anthropic
  response with the same two counts.
\<close>

definition openai_response_without_total :: "openai_data http_response" where
  "openai_response_without_total =
     \<lparr> ok = True, http_status = 200, http_text = [],
       http_json =
         \<lparr> od_id = Some ''cmpl-1'', od_model = Some ''deepseek-chat'',
           od_choices = Some [\<lparr> oc_message = \<lparr> om_role = ''assistant'',
                                                om_content = Some ''hi'',
                                                om_tool_calls = None \<rparr>,
                                  oc_finish_reason = Some ''stop'' \<rparr>],
           od_usage = Some \<lparr> prompt_tokens = Some 3, completion_tokens = Some 4,
                              total_tokens = None \<rparr> \<rparr> \<rparr>"

definition anthropic_response_example :: "anthropic_data http_response" where
  "anthropic_response_example =
     \<lparr> ok = True, http_status = 200, http_text = [],
       http_json =
         \<lparr> ad_id = Some ''msg-1'', ad_model = Some ''claude-3-5-sonnet-20241022'',
           ad_content = Some [Text_block ''hi''],
           ad_usage = Some \<lparr> input_tokens = Some 3, output_tokens = Some 4 \<rparr>,
           ad_stop_reason = Some ''end_turn'' \<rparr> \<rparr>"

section \<open>Resource monitor\<close>

text \<open>
  \<open>checkResources\<close> asks three collaborators and reads and writes the key-value table
  of the database. The answers of the collaborators during one call are the members of
  \<open>collaborators\<close>; an answer \<open>Inl e\<close> is a call that throws \<open>e\<close>.
  \<open>getSurvivalTier\<close> is imported from \<open>conway/credits.js\<close>, which is not among the
  sources: it is a parameter, a total function from the credits to the tier's name.
  The table is a map from keys to strings, and reading and writing it do not throw.
\<close>

record FinancialState =
  creditsCents :: rat
  usdcBalance :: rat
  lastChecked :: string

record ResourceStatus =
  financial :: FinancialState
  tier :: string
  previousTier :: "string option"
  tierChanged :: bool
  sandboxHealthy :: bool

record collaborators =
  getCreditsBalance :: "error + rat"
  getUsdcBalance :: "string \<Rightarrow> error + rat"
  exec_echo_ok :: "error + int"
  toISOString_now :: string
  getSurvivalTier :: "rat \<Rightarrow> string"

type_synonym AutomatonDatabase = "string \<rightharpoonup> string"

definition financial_json :: "FinancialState \<Rightarrow> json" where
  "financial_json f =
     JObject [(''creditsCents'', JNumber (creditsCents f)),
              (''usdcBalance'', JNumber (usdcBalance f)),
              (''lastChecked'', JString (lastChecked f))]"

text \<open>\<open>(prevTierStr as SurvivalTier) || null\<close>: no record and the empty string give null.\<close>

fun or_null :: "string option \<Rightarrow> string option" where
  "or_null None = None"
| "or_null (Some s) = (if s = [] then None else Some s)"

definition checkResources :: "js_runtime \<Rightarrow> collaborators \<Rightarrow> string \<Rightarrow> AutomatonDatabase
    \<Rightarrow> error + ResourceStatus \<times> AutomatonDatabase" where
  "checkResources rt conway address db =
     (let creditsCents = (case getCreditsBalance conway of Inr c \<Rightarrow> c | Inl _ \<Rightarrow> 0);
          usdcBalance = (case getUsdcBalance conway address of Inr u \<Rightarrow> u | Inl _ \<Rightarrow> 0);
          sandboxHealthy = (case exec_echo_ok conway of Inr exitCode \<Rightarrow> exitCode = 0
                            | Inl _ \<Rightarrow> False);
          financial = \<lparr> creditsCents = creditsCents, usdcBalance = usdcBalance,
                        lastChecked = toISOString_now conway \<rparr>;
          tier = getSurvivalTier conway creditsCents;
          prevTierStr = db ''current_tier'';
          previousTier = or_null prevTierStr;
          tierChanged = (previousTier \<noteq> None \<and> previousTier \<noteq> Some tier);
          db1 = db(''current_tier'' \<mapsto> tier);
          db2 = db1(''financial_state'' \<mapsto> JSON_stringify rt (financial_json financial))
      in Inr (\<lparr> financial = financial, tier = tier, previousTier = previousTier,
                 tierChanged = tierChanged, sandboxHealthy = sandboxHealthy \<rparr>, db2))"

text \<open>
  An example: both balance queries and the sandbox probe throw, and the table holds the
  tier \<open>normal\<close> from the poll before.
\<close>

definition tier_of_credits :: "rat \<Rightarrow> string" where
  "tier_of_credits cents = (if cents > 50 then ''normal'' else ''dead'')"

definition failing_oracles :: collaborators where
  "failing_oracles =
     \<lparr> getCreditsBalance = Inl (Error ''ECONNREFUSED''),
       getUsdcBalance = (\<lambda>a. Inl (Error ''rpc unavailable'')),
       exec_echo_ok = Inl (Error ''timeout''),
       toISOString_now = ''2026-01-01T00:00:00.000Z'',
       getSurvivalTier = tier_of_credits \<rparr>"

section \<open>Revenue server\<close>

datatype network = base | base_sepolia

fun network_name :: "network \<Rightarrow> string" where
  "network_name base = ''base''"
| "network_name base_sepolia = ''base-sepolia''"

fun USDC_ADDRESSES :: "network \<Rightarrow> string" where
  "USDC_ADDRESSES base = ''0x833589fCD6eDb6E08f4c7C32D4f71b54bdA02913''"
| "USDC_ADDRESSES base_sepolia = ''0x036CbD53842c5426634e7929541eC2318f3dCF7e''"

text \<open>
  What the listener reads of a request: the path of its URL, the \<open>x-payment\<close> header
  (\<open>None\<close> when the request has none) and the body it streams.
\<close>

record request =
  pathname :: string
  x_payment :: "string option"
  req_body :: string

text \<open>
  A service. Its handler is asynchronous and may reject: \<open>Inl e\<close> is a handler that
  throws \<open>e\<close>, \<open>Inr result\<close> one that resolves to \<open>result\<close>.
\<close>

record ServiceConfig =
  path :: string
  description :: string
  priceUsdc :: number
  handler :: "request \<Rightarrow> string \<Rightarrow> error + string"

text \<open>\<open>RevenueConfig\<close>, without the \<open>account\<close>, which \<open>createRevenueServer\<close> never reads.\<close>

record RevenueConfig =
  port :: nat
  network :: network
  walletAddress :: string
  services :: "ServiceConfig list"

text \<open>
  The calls the listener makes while it serves one request, in their order: log lines
  (without their text), the call of the service handler with the path of the service
  and the body, \<open>res.writeHead\<close> with the status and the headers, and \<open>res.end\<close> with
  the body. \<open>RecordEarning\<close> is a call of \<open>RevenueTracker.recordEarning\<close>.
\<close>

datatype effect =
    Logger_info
  | Logger_error
  | Handler_call string string
  | WriteHead nat "(string \<times> string) list"
  | End string
  | RecordEarning string number

definition json_content_type :: "(string \<times> string) list" where
  "json_content_type = [(''Content-Type'', ''application/json'')]"

text \<open>
  \<open>String(Math.ceil(service.priceUsdc * 1_000_000))\<close>: the double product of the price
  and one million, its ceiling, and the text of that number.
\<close>

definition maxAmountRequired :: "js_runtime \<Rightarrow> ServiceConfig \<Rightarrow> string" where
  "maxAmountRequired rt service =
     String_number rt (Math_ceil (number_times (priceUsdc service) (Finite 1000000)))"

definition payment_challenge :: "js_runtime \<Rightarrow> RevenueConfig \<Rightarrow> ServiceConfig \<Rightarrow> json" where
  "payment_challenge rt config service =
     JObject
       [(''x402Version'', JNumber 1),
        (''accepts'', JArray
           [JObject
              [(''scheme'', JString ''exact''),
               (''network'', JString (if network config = base_sepolia
                                       then ''eip155:84532'' else ''eip155:8453'')),
               (''maxAmountRequired'', JString (maxAmountRequired rt service)),
               (''payToAddress'', JString (walletAddress config)),
               (''requiredDeadlineSeconds'', JNumber 300),
               (''usdcAddress'', JString (USDC_ADDRESSES (network config)))]])]"

definition payment_required_body :: "RevenueConfig \<Rightarrow> ServiceConfig \<Rightarrow> json" where
  "payment_required_body config service =
     JObject
       [(''error'', JString ''Payment required''),
        (''price'', json_of_number (priceUsdc service)),
        (''currency'', JString ''USDC''),
        (''payTo'', JString (walletAddress config)),
        (''network'', JString (network_name (network config)))]"

definition services_listing :: "RevenueConfig \<Rightarrow> json" where
  "services_listing config =
     JObject
       [(''services'', JArray (map (\<lambda>s. JObject [(''path'', JString (path s)),
                                                    (''description'', JString (description s)),
                                                    (''priceUsdc'', json_of_number (priceUsdc s))])
                                 (services config))),
        (''paymentAddress'', JString (walletAddress config)),
        (''network'', JString (network_name (network config)))]"

text \<open>
  The request listener of \<open>createRevenueServer\<close>. The \<open>try\<close> block holds the parse of
  the header, the log line, the read of the body, the call of the handler and the
  answer 200; its \<open>catch\<close> answers 400 whatever was thrown.
\<close>

definition createRevenueServer_listener :: "js_runtime \<Rightarrow> RevenueConfig \<Rightarrow> request
    \<Rightarrow> effect list" where
  "createRevenueServer_listener rt config req =
     (let service = find (\<lambda>s. path s = pathname req) (services config);
          invalid_payment =
            [Logger_error,
             WriteHead 400 json_content_type,
             End (JSON_stringify rt (JObject [(''error'', JString ''Invalid payment'')]))]
      in
      if pathname req = ''/health'' then
        [WriteHead 200 json_content_type,
         End (JSON_stringify rt
                (JObject [(''status'', JString ''ok''),
                          (''services'', JNumber (of_nat (length (services config))))]))]
      else if pathname req = ''/services'' then
        [WriteHead 200 json_content_type,
         End (JSON_stringify rt (services_listing config))]
      else
        (case service of
           None \<Rightarrow>
             [WriteHead 404 json_content_type,
              End (JSON_stringify rt (JObject [(''error'', JString ''Service not found'')]))]
         | Some service \<Rightarrow>
             (case or_null (x_payment req) of
                None \<Rightarrow>
                  [WriteHead 402
                     [(''Content-Type'', ''application/json''),
                      (''X-Payment-Required'',
                         JSON_stringify rt (payment_challenge rt config service))],
                   End (JSON_stringify rt (payment_required_body config service))]
              | Some paymentHeader \<Rightarrow>
                  (case JSON_parse rt paymentHeader of
                     None \<Rightarrow> invalid_payment
                   | Some payment \<Rightarrow>
                       Logger_info # Handler_call (path service) (req_body req) #
                       (case handler service req (req_body req) of
                          Inl e \<Rightarrow> invalid_payment
                        | Inr result \<Rightarrow>
                            [WriteHead 200 json_content_type,
                             End (JSON_stringify rt
                                    (JObject [(''result'', JString result)]))])))))"

text \<open>What a caller observes of the effects: the status, the header, the handler, the ledger.\<close>

fun response_status :: "effect list \<Rightarrow> nat option" where
  "response_status [] = None"
| "response_status (WriteHead status headers # es) = Some status"
| "response_status (e # es) = response_status es"

fun response_headers :: "effect list \<Rightarrow> (string \<times> string) list" where
  "response_headers [] = []"
| "response_headers (WriteHead status headers # es) = headers"
| "response_headers (e # es) = response_headers es"

fun handler_calls :: "effect list \<Rightarrow> (string \<times> string) list" where
  "handler_calls [] = []"
| "handler_calls (Handler_call p b # es) = (p, b) # handler_calls es"
| "handler_calls (e # es) = handler_calls es"

fun recorded_earnings :: "effect list \<Rightarrow> (string \<times> number) list" where
  "recorded_earnings [] = []"
| "recorded_earnings (RecordEarning s a # es) = (s, a) # recorded_earnings es"
| "recorded_earnings (e # es) = recorded_earnings es"

section \<open>Revenue tracker\<close>

record RevenueTracker =
  earnings :: "string \<rightharpoonup> number"
  totalEarnings :: number

definition new_RevenueTracker :: RevenueTracker where
  "new_RevenueTracker = \<lparr> earnings = Map.empty, totalEarnings = Finite 0 \<rparr>"

text \<open>\<open>this.earnings.get(service) || 0\<close>: no entry, zero and \<open>NaN\<close> give zero.\<close>

fun earning_or_zero :: "number option \<Rightarrow> number" where
  "earning_or_zero None = Finite 0"
| "earning_or_zero (Some NaN) = Finite 0"
| "earning_or_zero (Some c) = c"

definition recordEarning :: "string \<Rightarrow> number \<Rightarrow> RevenueTracker \<Rightarrow> RevenueTracker" where
  "recordEarning service amount t =
     (let current = earning_or_zero (earnings t service)
      in \<lparr> earnings = (earnings t)(service \<mapsto> number_plus current amount),
           totalEarnings = number_plus (totalEarnings t) amount \<rparr>)"

definition getEarnings :: "RevenueTracker \<Rightarrow> (string \<rightharpoonup> number) \<times> number" where
  "getEarnings t = (earnings t, totalEarnings t)"

text \<open>The tracker after the \<open>recordEarning\<close> calls among the effects of a request.\<close>

fun tracker_after :: "effect list \<Rightarrow> RevenueTracker \<Rightarrow> RevenueTracker" where
  "tracker_after [] t = t"
| "tracker_after (RecordEarning s a # es) t = tracker_after es (recordEarning s a t)"
| "tracker_after (e # es) t = tracker_after es t"

section \<open>Examples for the revenue server\<close>

text \<open>
  A stand-in for the runtime in the examples. Its \<open>JSON.stringify\<close> writes integers in
  decimal, other numbers as a decimal fraction of at most twenty places, and strings
  without escapes; its \<open>JSON.parse\<close> knows one text, the empty object \<open>{}\<close>, and
  rejects every other text.
\<close>

fun fraction_digits :: "nat \<Rightarrow> nat \<Rightarrow> nat \<Rightarrow> string" where
  "fraction_digits 0 num den = []"
| "fraction_digits (Suc fuel) num den =
     (if num = 0 then []
      else digit_char ((num * 10) div den) # fraction_digits fuel ((num * 10) mod den) den)"

definition write_number :: "rat \<Rightarrow> string" where
  "write_number r =
     (case quotient_of r of
        (n, d) \<Rightarrow>
          if d = 1 then String_int n
          else (if n < 0 then ''-'' else [])
               @ digits (nat (\<bar>n\<bar> div d)) @ ''.''
               @ fraction_digits 20 (nat (\<bar>n\<bar> mod d)) (nat d))"

fun write_members :: "string list \<Rightarrow> string" where
  "write_members [] = []"
| "write_members [m] = m"
| "write_members (m # ms) = m @ '','' @ write_members ms"

fun write_json :: "json \<Rightarrow> string" where
  "write_json JNull = ''null''"
| "write_json (JBool b) = (if b then ''true'' else ''false'')"
| "write_json (JNumber r) = write_number r"
| "write_json (JString s) = [CHR 0x22] @ s @ [CHR 0x22]"
| "write_json (JArray xs) = ''['' @ write_members (map write_json xs) @ '']''"
| "write_json (JObject kvs) =
     ''{'' @ write_members (map (\<lambda>(k, v). [CHR 0x22] @ k @ [CHR 0x22] @ '':'' @ write_json v) kvs)
     @ ''}''"

definition example_runtime :: js_runtime where
  "example_runtime =
     \<lparr> JSON_stringify = write_json,
       JSON_parse = (\<lambda>s. if s = ''{}'' then Some (JObject []) else None),
       Number_toString = write_number \<rparr>"

text \<open>
  The chat service of \<open>createDefaultServices\<close> at the price \<open>0.001\<close> with a handler
  that answers \<open>hi\<close>, its code service at \<open>0.01\<close> with a handler that throws, and a
  service at the price \<open>0.0079\<close>.
\<close>

definition chat_service :: ServiceConfig where
  "chat_service =
     \<lparr> path = ''/api/chat'', description = ''Chat with the AI agent'', priceUsdc = double_literal (1 / 1000),
       handler = (\<lambda>req body. Inr ''hi'') \<rparr>"

definition failing_service :: ServiceConfig where
  "failing_service =
     \<lparr> path = ''/api/code'', description = ''Generate or explain code'',
       priceUsdc = double_literal (1 / 100),
       handler = (\<lambda>req body. Inl (Error ''Inference error: 503: overloaded'')) \<rparr>"

definition report_service :: ServiceConfig where
  "report_service =
     \<lparr> path = ''/api/report'', description = ''Write a report'',
       priceUsdc = double_literal (79 / 10000),
       handler = (\<lambda>req body. Inr ''fine'') \<rparr>"

definition example_config :: RevenueConfig where
  "example_config =
     \<lparr> port = 3402, network = base,
       walletAddress = ''0x1111111111111111111111111111111111111111'',
       services = [chat_service, failing_service, report_service] \<rparr>"

section \<open>Properties of the tier classification\<close>

lemma showBalance_status_cases:
  "showBalance_status t b = running \<longleftrightarrow> b \<ge> normal t"
  "showBalance_status t b = low_compute \<longleftrightarrow> b < normal t \<and> b \<ge> lowCompute t"
  "showBalance_status t b = critical \<longleftrightarrow>
     b < normal t \<and> b < lowCompute t \<and> b \<ge> critical_min t"
  "showBalance_status t b = dead \<longleftrightarrow>
     b < normal t \<and> b < lowCompute t \<and> b < critical_min t"
  by (auto simp: showBalance_status_def)

lemma run_initialState_cases:
  "run_initialState t b = dead \<longleftrightarrow> b < critical_min t"
  "run_initialState t b = critical \<longleftrightarrow> b \<ge> critical_min t \<and> b < lowCompute t"
  "run_initialState t b = low_compute \<longleftrightarrow>
     b \<ge> critical_min t \<and> b \<ge> lowCompute t \<and> b < normal t"
  "run_initialState t b = running \<longleftrightarrow>
     b \<ge> critical_min t \<and> b \<ge> lowCompute t \<and> b \<ge> normal t"
  by (auto simp: run_initialState_def)

lemma run_agrees_with_showBalance:
  assumes "critical_min t \<le> lowCompute t" and "lowCompute t \<le> normal t"
  shows "run_initialState t b = showBalance_status t b"
  using assms by (auto simp: run_initialState_def showBalance_status_def)

text \<open>
  C1: for every balance \<open>b\<close> and thresholds \<open>{normal, lowCompute, critical}\<close> of a
  threshold configuration, that is with \<open>normal > lowCompute > critical \<ge> 0\<close>, the
  classification of \<open>showBalance\<close> and the one of \<open>run\<close> give \<open>running\<close> (the normal
  tier) when \<open>b \<ge> normal\<close>, \<open>low_compute\<close> when \<open>lowCompute \<le> b < normal\<close>, \<open>critical\<close>
  when \<open>critical \<le> b < lowCompute\<close>, and \<open>dead\<close> when \<open>b < critical\<close>, which includes
  every negative \<open>b\<close>. With the thresholds 10, 5 and 1: 10 is normal, 9.99 and 5 are low
  compute, 4.99 and 1 are critical, 0.99 is dead.
\<close>

theorem C1_tier_classification:
  assumes "normal t > lowCompute t" and "lowCompute t > critical_min t"
    and "critical_min t \<ge> 0"
  shows "(b \<ge> normal t \<longrightarrow>
            showBalance_status t b = running \<and> run_initialState t b = running)
       \<and> (lowCompute t \<le> b \<and> b < normal t \<longrightarrow>
            showBalance_status t b = low_compute \<and> run_initialState t b = low_compute)
       \<and> (critical_min t \<le> b \<and> b < lowCompute t \<longrightarrow>
            showBalance_status t b = critical \<and> run_initialState t b = critical)
       \<and> (b < critical_min t \<longrightarrow>
            showBalance_status t b = dead \<and> run_initialState t b = dead)
       \<and> (b < 0 \<longrightarrow> showBalance_status t b = dead \<and> run_initialState t b = dead)
       \<and> map (showBalance_status DEFAULT_thresholds) [10, 999/100, 5, 499/100, 1, 99/100]
           = [running, low_compute, low_compute, critical, critical, dead]
       \<and> map (run_initialState DEFAULT_thresholds) [10, 999/100, 5, 499/100, 1, 99/100]
           = [running, low_compute, low_compute, critical, critical, dead]"
proof -
  have ex1: "map (showBalance_status DEFAULT_thresholds) [10, 999/100, 5, 499/100, 1, 99/100]
           = [running, low_compute, low_compute, critical, critical, dead]"
    by (simp add: showBalance_status_def DEFAULT_thresholds_def)
  have ex2: "map (run_initialState DEFAULT_thresholds) [10, 999/100, 5, 499/100, 1, 99/100]
           = [running, low_compute, low_compute, critical, critical, dead]"
    by (simp add: run_initialState_def DEFAULT_thresholds_def)
  have gen: "run_initialState t b = showBalance_status t b"
    using assms by (intro run_agrees_with_showBalance) simp_all
  show ?thesis
    unfolding gen using assms ex1 ex2
    by (auto simp: showBalance_status_def simp del: list.map)
qed

theorem C1_tier_classification_witness:
  "normal DEFAULT_thresholds > lowCompute DEFAULT_thresholds
   \<and> lowCompute DEFAULT_thresholds > critical_min DEFAULT_thresholds
   \<and> critical_min DEFAULT_thresholds \<ge> 0
   \<and> showBalance_status DEFAULT_thresholds (-2) = dead
   \<and> run_initialState DEFAULT_thresholds (-2) = dead
   \<and> showBalance_status DEFAULT_thresholds (999/100) = low_compute
   \<and> run_initialState DEFAULT_thresholds (999/100) = low_compute"
  using C1_tier_classification [of DEFAULT_thresholds "-2"]
    C1_tier_classification [of DEFAULT_thresholds "999/100"]
  by (simp add: DEFAULT_thresholds_def)

text \<open>
  C9: for thresholds with \<open>normal > lowCompute > critical \<ge> 0\<close> and balances
  \<open>b1 \<le> b2\<close>, the tier of \<open>b2\<close> is never more distressed than the tier of \<open>b1\<close>, and the
  tier of a balance is \<open>dead\<close> exactly when the balance is strictly below \<open>critical\<close>.
\<close>

theorem C9_classification_monotone:
  assumes "normal t > lowCompute t" and "lowCompute t > critical_min t"
    and "critical_min t \<ge> 0" and "b1 \<le> b2"
  shows "distress (showBalance_status t b2) \<le> distress (showBalance_status t b1)
       \<and> (showBalance_status t b = dead \<longleftrightarrow> b < critical_min t)"
proof
  show "distress (showBalance_status t b2) \<le> distress (showBalance_status t b1)"
    using assms by (auto simp: showBalance_status_def)
  show "showBalance_status t b = dead \<longleftrightarrow> b < critical_min t"
    using assms by (auto simp: showBalance_status_cases)
qed

theorem C9_classification_monotone_witness:
  "normal DEFAULT_thresholds > lowCompute DEFAULT_thresholds
   \<and> lowCompute DEFAULT_thresholds > critical_min DEFAULT_thresholds
   \<and> critical_min DEFAULT_thresholds \<ge> 0 \<and> (3::rat) \<le> 7
   \<and> distress (showBalance_status DEFAULT_thresholds 7)
       \<le> distress (showBalance_status DEFAULT_thresholds 3)
   \<and> (showBalance_status DEFAULT_thresholds (1/2) = dead
        \<longleftrightarrow> (1/2) < critical_min DEFAULT_thresholds)"
  using C9_classification_monotone [of DEFAULT_thresholds 3 7 "1/2"]
  by (simp add: DEFAULT_thresholds_def)

section \<open>Properties of the numbers\<close>

text \<open>A value strictly within a half of an integer rounds to that integer.\<close>

lemma round_half_even_near:
  assumes "of_int k - 1 / 2 < m" and "m < of_int k + 1 / 2"
  shows "round_half_even m = k"
proof -
  have lo: "of_int \<lfloor>m\<rfloor> \<le> m" and hi: "m < of_int \<lfloor>m\<rfloor> + 1"
    by linarith+
  show ?thesis
  proof (cases "m - of_int \<lfloor>m\<rfloor> < 1 / 2")
    case True
    with assms lo have "rat_of_int \<lfloor>m\<rfloor> < of_int k + 1 / 2" "rat_of_int k - 1 < of_int \<lfloor>m\<rfloor>"
      by linarith+
    then have "\<lfloor>m\<rfloor> = k" by linarith
    with True show ?thesis by (simp add: round_half_even_def)
  next
    case False
    with assms hi have "rat_of_int \<lfloor>m\<rfloor> < of_int k" "rat_of_int k - 2 < of_int \<lfloor>m\<rfloor>"
      by linarith+
    then have eq: "\<lfloor>m\<rfloor> + 1 = k" by linarith
    have "m - of_int \<lfloor>m\<rfloor> \<noteq> 1 / 2"
    proof
      assume "m - of_int \<lfloor>m\<rfloor> = 1 / 2"
      with assms(1) eq have "rat_of_int k - 1 / 2 < of_int (k - 1) + 1 / 2" by linarith
      then show False by simp
    qed
    with False eq show ?thesis by (simp add: round_half_even_def)
  qed
qed

lemma pow2_powi: "pow2 e = 2 powi e"
  by (simp add: pow2_def power_int_def power_one_over)

lemma pow2_pos: "0 < pow2 e"
  by (simp add: pow2_def)

lemma pow2_mono: "a \<le> b \<Longrightarrow> pow2 a \<le> pow2 b"
  by (simp add: pow2_powi power_int_increasing)

lemma pow2_less_imp: "pow2 a < pow2 b \<Longrightarrow> a < b"
  using pow2_mono [of b a] by (cases "a < b") simp_all

text \<open>The search finds the binade of a value of the normal range.\<close>

lemma ulp_search_binade:
  assumes "pow2 e \<le> x" and "x < pow2 (e + 1)" and "- 1022 \<le> e" and "e + 1023 \<le> int n"
  shows "ulp_search n x = e - 52"
  using assms(4)
proof (induction n)
  case 0
  with assms(3) show ?case by simp
next
  case (Suc n)
  show ?case
  proof (cases "pow2 (int n - 1022) \<le> x")
    case True
    with assms(2) have "pow2 (int n - 1022) < pow2 (e + 1)" by simp
    then have "int n - 1022 < e + 1" by (rule pow2_less_imp)
    with Suc.prems have "int n - 1022 = e" by simp
    with True show ?thesis by simp
  next
    case False
    with assms(1) have "int n - 1022 \<noteq> e" by auto
    with Suc.prems have "e + 1023 \<le> int n" by simp
    with False Suc.IH show ?thesis by simp
  qed
qed

lemma ulp_exponent_binade:
  assumes "pow2 e \<le> \<bar>x\<bar>" and "\<bar>x\<bar> < pow2 (e + 1)" and "- 1022 \<le> e" and "e \<le> 1023"
  shows "ulp_exponent x = e - 52"
  unfolding ulp_exponent_def
  using assms by (intro ulp_search_binade) simp_all

text \<open>A positive value of the normal range rounds to the nearest multiple of its last place.\<close>

lemma round_double_normal:
  assumes "pow2 e \<le> x" and "x < pow2 (e + 1)" and "- 1022 \<le> e" and "e \<le> 1022"
    and "of_int k - 1 / 2 < x / pow2 (e - 52)" and "x / pow2 (e - 52) < of_int k + 1 / 2"
    and "of_int k * pow2 (e - 52) < pow2 1024"
  shows "round_double x = Finite (of_int k * pow2 (e - 52))"
proof -
  have pos: "0 < x"
    using assms(1) pow2_pos [of e] by linarith
  then have ab: "\<bar>x\<bar> = x" by simp
  have q: "ulp_exponent x = e - 52"
    using assms(1-4) by (intro ulp_exponent_binade) (simp_all add: ab)
  have r: "round_half_even (x / pow2 (e - 52)) = k"
    using assms(5,6) by (rule round_half_even_near)
  show ?thesis
    using assms(7) pos by (simp add: round_double_def q r ab Let_def)
qed

text \<open>
  The prices of the examples as doubles, and the amounts the challenge asks for them:
  \<open>0.001 * 1000000\<close> is exactly 1000, while \<open>0.0079 * 1000000\<close> is the double just
  above 7900, whose ceiling is 7901.
\<close>

lemma double_literal_0_001:
  "double_literal (1 / 1000) = Finite (4611686018427388 / 2 ^ 62)"
  unfolding double_literal_def
  using round_double_normal [of "-10" "1/1000" 4611686018427388]
  by (simp add: pow2_def)

lemma amount_of_0_001:
  "Math_ceil (number_times (double_literal (1 / 1000)) (Finite 1000000)) = Finite 1000"
proof -
  have "round_double (4611686018427388 / 2 ^ 62 * 1000000)
        = Finite (of_int 8796093022208000 * pow2 (9 - 52))"
    by (rule round_double_normal) (simp_all add: pow2_def)
  then show ?thesis
    by (simp add: double_literal_0_001 pow2_def)
qed

lemma double_literal_0_0079:
  "double_literal (79 / 10000) = Finite (4554039943197046 / 2 ^ 59)"
  unfolding double_literal_def
  using round_double_normal [of "-7" "79/10000" 4554039943197046]
  by (simp add: pow2_def)

lemma amount_of_0_0079:
  "Math_ceil (number_times (double_literal (79 / 10000)) (Finite 1000000)) = Finite 7901"
proof -
  have "round_double (4554039943197046 / 2 ^ 59 * 1000000)
        = Finite (of_int 8686141859430401 * pow2 (12 - 52))"
    by (rule round_double_normal) (simp_all add: pow2_def)
  then show ?thesis
    by (simp add: double_literal_0_0079 pow2_def ceiling_unique)
qed

lemma double_literal_8_3:
  "double_literal (83 / 10) = Finite (4672484613396890 / 2 ^ 49)"
  unfolding double_literal_def
  using round_double_normal [of 3 "83/10" 4672484613396890]
  by (simp add: pow2_def)

lemma amount_of_8_3:
  "Math_ceil (number_times (double_literal (83 / 10)) (Finite 1000000)) = Finite 8300001"
proof -
  have "round_double (4672484613396890 / 2 ^ 49 * 1000000)
        = Finite (of_int 8912057139200001 * pow2 (22 - 52))"
    by (rule round_double_normal) (simp_all add: pow2_def)
  then show ?thesis
    by (simp add: double_literal_8_3 pow2_def ceiling_unique)
qed

section \<open>Properties of the inference router\<close>

lemma setLowComputeMode_constants:
  "providers (setLowComputeMode e r) = providers r"
  "primaryProvider (setLowComputeMode e r) = primaryProvider r"
  by (simp_all add: setLowComputeMode_def split: option.splits)

lemma after_calls_constants:
  "providers (after_calls calls r) = providers r
   \<and> primaryProvider (after_calls calls r) = primaryProvider r"
  by (induction calls arbitrary: r) (simp_all add: setLowComputeMode_constants)

lemma after_calls_snoc:
  "after_calls (calls @ [e]) r = setLowComputeMode e (after_calls calls r)"
  by (induction calls arbitrary: r) simp_all

lemma setLowComputeMode_True_idem:
  "setLowComputeMode True (setLowComputeMode True r) = setLowComputeMode True r"
  by (simp add: setLowComputeMode_def split: option.splits)

lemma setLowComputeMode_False_idem:
  "setLowComputeMode False (setLowComputeMode False r) = setLowComputeMode False r"
  by (simp add: setLowComputeMode_def)

lemma setLowComputeMode_False_after:
  "setLowComputeMode False (setLowComputeMode e r) = setLowComputeMode False r"
  by (simp add: setLowComputeMode_def split: option.splits)

lemma createMultiProviderClient_fields:
  assumes "createMultiProviderClient ps = Inr r0"
  shows "providers r0 = ps" and "first_available ps = Some (primaryProvider r0)"
    and "currentProvider r0 = primaryProvider r0"
    and "currentModel r0 = defaultModel (primaryProvider r0)"
    and "currentMaxTokens r0 = number_or (maxTokens (primaryProvider r0)) 4096"
  using assms by (auto simp: createMultiProviderClient_def split: option.splits)

lemma setLowComputeMode_False_initial:
  assumes "createMultiProviderClient ps = Inr r0"
  shows "setLowComputeMode False r0 = r0"
  using createMultiProviderClient_fields [OF assms]
  by (simp add: setLowComputeMode_def)

lemma setLowComputeMode_False_after_calls:
  "setLowComputeMode False (after_calls calls r) = setLowComputeMode False r"
proof (induction calls arbitrary: r)
  case Nil
  show ?case by simp
next
  case (Cons e calls)
  show ?case by (simp add: Cons.IH setLowComputeMode_False_after)
qed

text \<open>
  Enabling low-compute mode forgets the variables it overwrites: the result depends on
  the earlier state only where no cheap provider is configured.
\<close>

lemma setLowComputeMode_True_after:
  assumes "deepseek (providers r) \<noteq> None \<or> tongyi (providers r) \<noteq> None"
  shows "setLowComputeMode True (setLowComputeMode e r) = setLowComputeMode True r"
  using assms by (auto simp: setLowComputeMode_def split: option.splits)

lemma first_available_cheap:
  assumes "first_available ps = Some p"
  shows "deepseek ps = Some d \<Longrightarrow> p = d"
    and "deepseek ps = None \<Longrightarrow> tongyi ps = Some t \<Longrightarrow> p = t"
  using assms by (auto simp: first_available_def)

lemma setLowComputeMode_True_provider:
  assumes "createMultiProviderClient ps = Inr r0"
  shows "currentProvider (setLowComputeMode True (after_calls calls r0)) = primaryProvider r0"
proof (induction calls rule: rev_induct)
  case Nil
  show ?case
    using createMultiProviderClient_fields [OF assms]
    by (auto simp: setLowComputeMode_def first_available_def split: option.splits)
next
  case (snoc e calls)
  have same: "providers (after_calls calls r0) = ps"
    "primaryProvider (after_calls calls r0) = primaryProvider r0"
    using after_calls_constants [of calls r0] createMultiProviderClient_fields(1) [OF assms]
    by simp_all
  show ?case
    using snoc.IH same
    by (cases e) (auto simp: after_calls_snoc setLowComputeMode_def split: option.splits)
qed

lemma setLowComputeMode_True_model:
  assumes "createMultiProviderClient ps = Inr r0"
  shows "currentModel (setLowComputeMode True (after_calls calls r0))
         = currentModel (setLowComputeMode True r0)"
proof (induction calls rule: rev_induct)
  case Nil
  show ?case by simp
next
  case (snoc e calls)
  have same: "providers (after_calls calls r0) = ps"
    "primaryProvider (after_calls calls r0) = primaryProvider r0"
    using after_calls_constants [of calls r0] createMultiProviderClient_fields(1) [OF assms]
    by simp_all
  show ?case
    using snoc.IH same createMultiProviderClient_fields [OF assms]
    by (cases e) (auto simp: after_calls_snoc setLowComputeMode_def split: option.splits)
qed

lemma setLowComputeMode_True_history:
  assumes "createMultiProviderClient ps = Inr r0"
  shows "setLowComputeMode True (after_calls calls r0) = setLowComputeMode True r0"
proof (rule router.equality)
  show "providers (setLowComputeMode True (after_calls calls r0))
        = providers (setLowComputeMode True r0)"
    by (simp add: setLowComputeMode_constants after_calls_constants)
  show "primaryProvider (setLowComputeMode True (after_calls calls r0))
        = primaryProvider (setLowComputeMode True r0)"
    by (simp add: setLowComputeMode_constants after_calls_constants)
  show "currentProvider (setLowComputeMode True (after_calls calls r0))
        = currentProvider (setLowComputeMode True r0)"
    using setLowComputeMode_True_provider [OF assms, of calls]
      setLowComputeMode_True_provider [OF assms, of "[]"]
    by simp
  show "currentModel (setLowComputeMode True (after_calls calls r0))
        = currentModel (setLowComputeMode True r0)"
    by (rule setLowComputeMode_True_model [OF assms])
  show "currentMaxTokens (setLowComputeMode True (after_calls calls r0))
        = currentMaxTokens (setLowComputeMode True r0)"
    by (simp add: setLowComputeMode_def)
  show "router.more (setLowComputeMode True (after_calls calls r0))
        = router.more (setLowComputeMode True r0)"
    by simp
qed

text \<open>
  C6: for a fixed provider configuration \<open>ps\<close> and a router in any state that calls of
  \<open>setLowComputeMode\<close> can reach from its construction: enabling low-compute mode twice
  gives the state that enabling it once gives; the state after enabling is the same
  whatever the calls before were, and its active provider is the first configured one
  in the fixed order deepseek, tongyi, openai, anthropic, custom (cheapest first);
  disabling restores the state of construction (the primary provider, its default model
  and its token budget); and disabling twice gives the state that disabling once gives.
\<close>

theorem C6_setLowComputeMode_idempotent:
  assumes "createMultiProviderClient ps = Inr r0"
  shows "setLowComputeMode True (setLowComputeMode True (after_calls calls r0))
           = setLowComputeMode True (after_calls calls r0)
       \<and> setLowComputeMode True (after_calls calls r0) = setLowComputeMode True r0
       \<and> first_available ps
           = Some (currentProvider (setLowComputeMode True (after_calls calls r0)))
       \<and> setLowComputeMode False (after_calls calls r0) = r0
       \<and> currentProvider r0 = primaryProvider r0
       \<and> currentModel r0 = defaultModel (primaryProvider r0)
       \<and> currentMaxTokens r0 = number_or (maxTokens (primaryProvider r0)) 4096
       \<and> setLowComputeMode False (setLowComputeMode False (after_calls calls r0))
           = setLowComputeMode False (after_calls calls r0)"
  using setLowComputeMode_True_history [OF assms, of calls]
    setLowComputeMode_True_provider [OF assms, of calls]
    createMultiProviderClient_fields [OF assms]
    setLowComputeMode_False_initial [OF assms]
  by (simp add: setLowComputeMode_True_idem setLowComputeMode_False_idem
      setLowComputeMode_False_after_calls)

theorem C6_setLowComputeMode_idempotent_witness:
  "createMultiProviderClient openai_only = Inr openai_only_router
   \<and> setLowComputeMode True (after_calls [True, False, True] openai_only_router)
       = openai_only_router \<lparr> currentMaxTokens := 2048 \<rparr>
   \<and> first_available openai_only = Some example_openai
   \<and> setLowComputeMode False (after_calls [True, False, True] openai_only_router)
       = openai_only_router"
proof -
  have made: "createMultiProviderClient openai_only = Inr openai_only_router"
    by (simp add: createMultiProviderClient_def first_available_def openai_only_def
        openai_only_router_def example_openai_def)
  note inst = C6_setLowComputeMode_idempotent [OF made, of "[True, False, True]"]
  have once: "setLowComputeMode True openai_only_router
              = openai_only_router \<lparr> currentMaxTokens := 2048 \<rparr>"
    by (simp add: setLowComputeMode_def openai_only_router_def openai_only_def)
  have first: "first_available openai_only = Some example_openai"
    by (simp add: first_available_def openai_only_def)
  from inst have "setLowComputeMode True (after_calls [True, False, True] openai_only_router)
       = setLowComputeMode True openai_only_router"
    and "setLowComputeMode False (after_calls [True, False, True] openai_only_router)
       = openai_only_router"
    by blast+
  with made once first show ?thesis by (simp only: simp_thms)
qed

text \<open>
  C10: when neither a deepseek nor a tongyi provider is configured, enabling low-compute
  mode sets the token budget to 2048 and changes nothing else: the active provider, the
  active model and every other component of the router are as before.
\<close>

theorem C10_no_cheap_provider_frame:
  assumes "deepseek (providers r) = None" and "tongyi (providers r) = None"
  shows "setLowComputeMode True r = r \<lparr> currentMaxTokens := 2048 \<rparr>
       \<and> currentProvider (setLowComputeMode True r) = currentProvider r
       \<and> currentModel (setLowComputeMode True r) = currentModel r
       \<and> currentMaxTokens (setLowComputeMode True r) = 2048"
  using assms by (simp add: setLowComputeMode_def)

theorem C10_no_cheap_provider_frame_witness:
  "deepseek (providers openai_only_router) = None
   \<and> tongyi (providers openai_only_router) = None
   \<and> setLowComputeMode True openai_only_router
       = \<lparr> providers = openai_only, primaryProvider = example_openai,
           currentProvider = example_openai, currentModel = ''gpt-4o-mini'',
           currentMaxTokens = 2048 \<rparr>"
  using C10_no_cheap_provider_frame [of openai_only_router]
  by (simp add: openai_only_router_def openai_only_def)

section \<open>Properties of the Anthropic request\<close>

lemma join_newline_Cons:
  "join_newline (c # cs) = c @ concat (map (\<lambda>x. newline @ x) cs)"
  by (induction cs arbitrary: c) simp_all

lemma system_contents_Cons:
  "system_contents (m # ms)
   = (if role m = ''system'' then content m # system_contents ms else system_contents ms)"
  by (simp add: system_contents_def)

lemma extract_system_eq:
  "extract_system msgs sp ns =
     (if sp \<noteq> [] then sp @ concat (map (\<lambda>x. newline @ x) (system_contents msgs))
      else join_newline (dropWhile (\<lambda>c. c = []) (system_contents msgs)),
      ns @ filter (\<lambda>m. role m \<noteq> ''system'') msgs)"
proof (induction msgs arbitrary: sp ns)
  case Nil
  show ?case by (simp add: system_contents_def)
next
  case (Cons m ms)
  show ?case
  proof (cases "role m = ''system''")
    case False
    then show ?thesis by (simp add: Cons.IH system_contents_Cons)
  next
    case True
    show ?thesis
    proof (cases "sp = []")
      case False
      with True show ?thesis by (simp add: Cons.IH system_contents_Cons)
    next
      case True
      with \<open>role m = ''system''\<close> show ?thesis
        by (simp add: Cons.IH system_contents_Cons join_newline_Cons)
    qed
  qed
qed

lemma join_newline_empty_iff:
  "join_newline cs = [] \<longleftrightarrow> cs = [] \<or> cs = [[]]"
  by (cases cs) (auto simp: join_newline_Cons newline_def)

lemma body_system_eq:
  "body_system (chatViaAnthropic_body model tokenLimit messages tools temperature)
   = (if join_newline (dropWhile (\<lambda>c. c = []) (system_contents messages)) \<noteq> []
      then Some (join_newline (dropWhile (\<lambda>c. c = []) (system_contents messages)))
      else None)"
  by (simp add: chatViaAnthropic_body_def extract_system_eq)

lemma body_messages_eq:
  "body_messages (chatViaAnthropic_body model tokenLimit messages tools temperature)
   = map remap_role (filter (\<lambda>m. role m \<noteq> ''system'') messages)"
  by (simp add: chatViaAnthropic_body_def extract_system_eq)

lemma dropWhile_none_empty:
  "\<forall>c \<in> set cs. c \<noteq> [] \<Longrightarrow> dropWhile (\<lambda>c. c = []) cs = cs"
  by (cases cs) simp_all

lemma count_system_and_rest:
  "length (filter (\<lambda>m. role m \<noteq> ''system'') messages) + length (system_contents messages)
   = length messages"
  by (induction messages) (simp_all add: system_contents_Cons system_contents_def)

text \<open>
  C7, as stated, fails where a system entry with an empty content comes before another
  system entry: the separator is written only when the prompt collected so far is not
  empty, so the entries \<open>""\<close> and \<open>"b"\<close> give the system field \<open>"b"\<close>, with no newline
  between the two entries.
\<close>

theorem C7_empty_system_entry_counterexample:
  "body_system (chatViaAnthropic_body ''claude-3-5-sonnet-20241022'' 4096
      [plain_message ''system'' [], plain_message ''system'' ''b'',
       plain_message ''user'' ''hello''] None None) = Some ''b''
   \<and> join_newline (system_contents
      [plain_message ''system'' [], plain_message ''system'' ''b'',
       plain_message ''user'' ''hello'']) = CHR 0x0A # ''b''
   \<and> CHR 0x0A # ''b'' \<noteq> ''b''"
  by (simp add: chatViaAnthropic_body_def plain_message_def system_contents_def newline_def)

text \<open>
  C7 (amended): for every message sequence sent to the Anthropic backend, the system
  field is the contents of the system entries, in their order and from the first
  non-empty one on, joined with exactly one newline between consecutive entries (the
  field is omitted when this text is empty); when no system entry is empty, this is the
  join of all of them. Every entry that is not a system entry is sent, in its order and
  with its content, with the role \<open>assistant\<close> or \<open>user\<close>, so no message is dropped.
\<close>

theorem C7_anthropic_system_and_roles:
  "body_system (chatViaAnthropic_body model tokenLimit messages tools temperature)
     = (if join_newline (dropWhile (\<lambda>c. c = []) (system_contents messages)) \<noteq> []
        then Some (join_newline (dropWhile (\<lambda>c. c = []) (system_contents messages)))
        else None)
   \<and> ((\<forall>c \<in> set (system_contents messages). c \<noteq> []) \<longrightarrow> system_contents messages \<noteq> []
        \<longrightarrow> body_system (chatViaAnthropic_body model tokenLimit messages tools temperature)
            = Some (join_newline (system_contents messages)))
   \<and> map a_content
        (body_messages (chatViaAnthropic_body model tokenLimit messages tools temperature))
       = map content (filter (\<lambda>m. role m \<noteq> ''system'') messages)
   \<and> length (body_messages (chatViaAnthropic_body model tokenLimit messages tools temperature))
       + length (system_contents messages) = length messages
   \<and> (\<forall>m \<in> set (body_messages
                    (chatViaAnthropic_body model tokenLimit messages tools temperature)).
         a_role m = ''user'' \<or> a_role m = ''assistant'')"
proof (intro conjI impI)
  show "body_system (chatViaAnthropic_body model tokenLimit messages tools temperature)
     = (if join_newline (dropWhile (\<lambda>c. c = []) (system_contents messages)) \<noteq> []
        then Some (join_newline (dropWhile (\<lambda>c. c = []) (system_contents messages)))
        else None)"
    by (rule body_system_eq)
next
  assume nonempty: "\<forall>c \<in> set (system_contents messages). c \<noteq> []"
    and some: "system_contents messages \<noteq> []"
  have "join_newline (system_contents messages) \<noteq> []"
    using nonempty some by (auto simp: join_newline_empty_iff)
  then show "body_system (chatViaAnthropic_body model tokenLimit messages tools temperature)
            = Some (join_newline (system_contents messages))"
    by (simp add: body_system_eq dropWhile_none_empty [OF nonempty])
next
  show "map a_content
        (body_messages (chatViaAnthropic_body model tokenLimit messages tools temperature))
       = map content (filter (\<lambda>m. role m \<noteq> ''system'') messages)"
    by (simp add: body_messages_eq remap_role_def comp_def)
next
  show "length (body_messages (chatViaAnthropic_body model tokenLimit messages tools temperature))
       + length (system_contents messages) = length messages"
    by (simp add: body_messages_eq count_system_and_rest)
next
  show "\<forall>m \<in> set (body_messages
                    (chatViaAnthropic_body model tokenLimit messages tools temperature)).
         a_role m = ''user'' \<or> a_role m = ''assistant''"
    by (auto simp: body_messages_eq remap_role_def)
qed

theorem C7_anthropic_system_and_roles_witness:
  "system_contents
       [plain_message ''system'' ''a'', plain_message ''tool'' ''t'',
        plain_message ''system'' ''b'', plain_message ''assistant'' ''x''] = [''a'', ''b'']
   \<and> body_system (chatViaAnthropic_body ''claude-3-5-sonnet-20241022'' 4096
       [plain_message ''system'' ''a'', plain_message ''tool'' ''t'',
        plain_message ''system'' ''b'', plain_message ''assistant'' ''x''] None None)
       = Some [CHR ''a'', CHR 0x0A, CHR ''b'']
   \<and> body_messages (chatViaAnthropic_body ''claude-3-5-sonnet-20241022'' 4096
       [plain_message ''system'' ''a'', plain_message ''tool'' ''t'',
        plain_message ''system'' ''b'', plain_message ''assistant'' ''x''] None None)
       = [\<lparr> a_role = ''user'', a_content = ''t'' \<rparr>,
          \<lparr> a_role = ''assistant'', a_content = ''x'' \<rparr>]"
proof -
  let ?ms = "[plain_message ''system'' ''a'', plain_message ''tool'' ''t'',
        plain_message ''system'' ''b'', plain_message ''assistant'' ''x'']"
  have contents: "system_contents ?ms = [''a'', ''b'']"
    by (simp add: system_contents_def plain_message_def)
  have hyp: "\<forall>c \<in> set (system_contents ?ms). c \<noteq> []"
    unfolding contents by simp
  have some: "system_contents ?ms \<noteq> []"
    unfolding contents by simp
  have joined: "join_newline (system_contents ?ms) = [CHR ''a'', CHR 0x0A, CHR ''b'']"
    unfolding contents by (simp add: newline_def)
  have sent: "body_messages (chatViaAnthropic_body ''claude-3-5-sonnet-20241022'' 4096 ?ms
        None None)
       = [\<lparr> a_role = ''user'', a_content = ''t'' \<rparr>,
          \<lparr> a_role = ''assistant'', a_content = ''x'' \<rparr>]"
    by (simp add: chatViaAnthropic_body_def plain_message_def remap_role_def)
  note inst = C7_anthropic_system_and_roles [of "''claude-3-5-sonnet-20241022''" 4096
      ?ms None None]
  have "body_system (chatViaAnthropic_body ''claude-3-5-sonnet-20241022'' 4096 ?ms None None)
        = Some (join_newline (system_contents ?ms))"
    by (rule mp [OF mp [OF conjunct1 [OF conjunct2 [OF inst]] hyp] some])
  then have "body_system (chatViaAnthropic_body ''claude-3-5-sonnet-20241022'' 4096 ?ms
        None None) = Some [CHR ''a'', CHR 0x0A, CHR ''b'']"
    by (simp only: joined)
  with contents sent show ?thesis by (simp only: simp_thms)
qed

section \<open>Properties of the token usage\<close>

lemma anthropic_total_is_sum:
  "totalTokens (anthropic_usage_record data)
   = promptTokens (anthropic_usage_record data) + completionTokens (anthropic_usage_record data)"
  by (simp add: anthropic_usage_record_def)

lemma openai_total_when_omitted:
  "od_usage data = Some u \<Longrightarrow> total_tokens u = None
   \<Longrightarrow> totalTokens (openai_usage_record data) = 0"
  by (simp add: openai_usage_record_def usage_field_def)

text \<open>
  C8 at a failing input: an OpenAI-compatible response whose usage has
  \<open>prompt_tokens = 3\<close> and \<open>completion_tokens = 4\<close> and omits \<open>total_tokens\<close> is
  returned with the usage \<open>{3, 4, 0}\<close>: the total defaults to zero and is not the sum 7.
  The Anthropic path returns the sum for the same two counts.
\<close>

theorem C8_openai_total_defaults_to_zero:
  "map_sum id ir_usage (chatViaOpenAiCompatible ''deepseek-chat'' openai_response_without_total)
     = Inr \<lparr> promptTokens = 3, completionTokens = 4, totalTokens = 0 \<rparr>
   \<and> map_sum id ir_usage
       (chatViaAnthropic rt ''claude-3-5-sonnet-20241022'' anthropic_response_example)
     = Inr \<lparr> promptTokens = 3, completionTokens = 4, totalTokens = 7 \<rparr>"
  by (simp add: chatViaOpenAiCompatible_def openai_response_without_total_def
      openai_usage_record_def usage_field_def chatViaAnthropic_def
      anthropic_response_example_def anthropic_usage_record_def)

section \<open>Properties of the resource monitor\<close>

text \<open>
  C5: whatever the balance queries answer, and in particular when they throw,
  \<open>checkResources\<close> returns a status and does not throw. A balance whose query threw
  counts as zero; the tier is classified from the credits; the change flag says that
  there is a last persisted tier and that it differs from the new tier; and the table
  afterwards is the table before with the tier record and the financial-state record
  written.
\<close>

theorem C5_checkResources_oracle_failure:
  "\<exists>status db'.
     checkResources rt conway address db = Inr (status, db')
     \<and> (isl (getCreditsBalance conway) \<longrightarrow> creditsCents (financial status) = 0)
     \<and> (isl (getUsdcBalance conway address) \<longrightarrow> usdcBalance (financial status) = 0)
     \<and> tier status = getSurvivalTier conway (creditsCents (financial status))
     \<and> previousTier status = or_null (db ''current_tier'')
     \<and> tierChanged status
         = (previousTier status \<noteq> None \<and> previousTier status \<noteq> Some (tier status))
     \<and> db' = db(''current_tier'' \<mapsto> tier status,
                 ''financial_state'' \<mapsto> JSON_stringify rt (financial_json (financial status)))"
  by (auto simp: checkResources_def Let_def split: sum.splits)

theorem C5_checkResources_oracle_failure_witness:
  "isl (getCreditsBalance failing_oracles)
   \<and> map_sum id (\<lambda>(status, db'). (creditsCents (financial status), tier status,
                                    previousTier status, tierChanged status,
                                    db' ''current_tier''))
       (checkResources example_runtime failing_oracles ''0xabc''
          (Map.empty(''current_tier'' \<mapsto> ''normal'')))
     = Inr (0, ''dead'', Some ''normal'', True, Some ''dead'')"
proof -
  obtain status db' where
    returned: "checkResources example_runtime failing_oracles ''0xabc''
          (Map.empty(''current_tier'' \<mapsto> ''normal'')) = Inr (status, db')"
    and credits: "isl (getCreditsBalance failing_oracles)
                  \<longrightarrow> creditsCents (financial status) = 0"
    and classified: "tier status
                     = getSurvivalTier failing_oracles (creditsCents (financial status))"
    and previous: "previousTier status
                   = or_null ((Map.empty(''current_tier'' \<mapsto> ''normal'')) ''current_tier'')"
    and changed: "tierChanged status
         = (previousTier status \<noteq> None \<and> previousTier status \<noteq> Some (tier status))"
    and written: "db' = (Map.empty(''current_tier'' \<mapsto> ''normal''))
                 (''current_tier'' \<mapsto> tier status,
                  ''financial_state'' \<mapsto>
                     JSON_stringify example_runtime (financial_json (financial status)))"
    using C5_checkResources_oracle_failure [of example_runtime failing_oracles "''0xabc''"
        "Map.empty(''current_tier'' \<mapsto> ''normal'')"]
    by blast
  have throws: "isl (getCreditsBalance failing_oracles)"
    by (simp add: failing_oracles_def)
  with credits have zero: "creditsCents (financial status) = 0"
    by simp
  have dead: "tier status = ''dead''"
    by (simp add: classified zero failing_oracles_def tier_of_credits_def)
  have prev: "previousTier status = Some ''normal''"
    by (simp add: previous)
  have flag: "tierChanged status"
    by (simp add: changed prev dead)
  have stored: "db' ''current_tier'' = Some ''dead''"
    by (simp add: written dead)
  show ?thesis
    by (simp add: returned throws zero dead prev flag stored)
qed

section \<open>Properties of the revenue server\<close>

lemma or_null_None_iff:
  "or_null h = None \<longleftrightarrow> h = None \<or> h = Some []"
  by (cases h) simp_all

lemma listener_payment_required:
  assumes "find (\<lambda>s. path s = pathname req) (services config) = Some service"
    and "pathname req \<noteq> ''/health''" and "pathname req \<noteq> ''/services''"
    and "or_null (x_payment req) = None"
  shows "createRevenueServer_listener rt config req =
           [WriteHead 402
              [(''Content-Type'', ''application/json''),
               (''X-Payment-Required'', JSON_stringify rt (payment_challenge rt config service))],
            End (JSON_stringify rt (payment_required_body config service))]"
  using assms by (simp add: createRevenueServer_listener_def)

lemma listener_paid:
  assumes "find (\<lambda>s. path s = pathname req) (services config) = Some service"
    and "pathname req \<noteq> ''/health''" and "pathname req \<noteq> ''/services''"
    and "x_payment req = Some h" and "h \<noteq> []" and "JSON_parse rt h = Some payment"
  shows "createRevenueServer_listener rt config req =
           Logger_info # Handler_call (path service) (req_body req) #
           (case handler service req (req_body req) of
              Inl e \<Rightarrow>
                [Logger_error, WriteHead 400 json_content_type,
                 End (JSON_stringify rt (JObject [(''error'', JString ''Invalid payment'')]))]
            | Inr result \<Rightarrow>
                [WriteHead 200 json_content_type,
                 End (JSON_stringify rt (JObject [(''result'', JString result)]))])"
  using assms by (simp add: createRevenueServer_listener_def)

lemma listener_records_nothing:
  "recorded_earnings (createRevenueServer_listener rt config req) = []"
  by (simp add: createRevenueServer_listener_def Let_def
      split: option.splits sum.splits)

lemma tracker_after_no_earnings:
  "recorded_earnings es = [] \<Longrightarrow> tracker_after es t = t"
  by (induction es t rule: tracker_after.induct) simp_all

lemma challenge_amount:
  "Option.bind
     (Option.bind (member ''accepts'' (payment_challenge rt config service)) (element 0))
     (member ''maxAmountRequired'')
   = Some (JString (String_number rt
        (Math_ceil (number_times (priceUsdc service) (Finite 1000000)))))"
  by (simp add: payment_challenge_def maxAmountRequired_def)

lemma String_int_1000: "String_int 1000 = ''1000''"
  by (simp add: String_int_def digits.simps digit_char_def)

lemma String_int_7901: "String_int 7901 = ''7901''"
  by (simp add: String_int_def digits.simps digit_char_def)

text \<open>
  C2: for every request to a configured service path that carries no \<open>X-Payment\<close>
  header (or an empty one), the listener answers with status 402, with an
  \<open>X-Payment-Required\<close> header that is the JSON text of a challenge whose
  \<open>accepts[0].maxAmountRequired\<close> is the string of \<open>Math.ceil(priceUsdc * 1_000_000)\<close>,
  the product being the double product the code computes, and with a JSON body whose
  members are \<open>error\<close>, \<open>price\<close>, \<open>currency\<close>, \<open>payTo\<close> and \<open>network\<close>; the handler is
  not called. A service path is a paid path: the discovery paths \<open>/health\<close> and
  \<open>/services\<close> are served first and free, whatever the catalog holds.
\<close>

theorem C2_payment_required:
  assumes "find (\<lambda>s. path s = pathname req) (services config) = Some service"
    and "pathname req \<noteq> ''/health''" and "pathname req \<noteq> ''/services''"
    and "x_payment req = None \<or> x_payment req = Some []"
  shows "createRevenueServer_listener rt config req =
           [WriteHead 402
              [(''Content-Type'', ''application/json''),
               (''X-Payment-Required'',
                  JSON_stringify rt (payment_challenge rt config service))],
            End (JSON_stringify rt (payment_required_body config service))]
       \<and> response_status (createRevenueServer_listener rt config req) = Some 402
       \<and> map_of (response_headers (createRevenueServer_listener rt config req))
             ''X-Payment-Required''
           = Some (JSON_stringify rt (payment_challenge rt config service))
       \<and> Option.bind
             (Option.bind (member ''accepts'' (payment_challenge rt config service))
                (element 0))
             (member ''maxAmountRequired'')
           = Some (JString (String_number rt
                (Math_ceil (number_times (priceUsdc service) (Finite 1000000)))))
       \<and> (\<exists>e p c t n. payment_required_body config service
             = JObject [(''error'', e), (''price'', p), (''currency'', c), (''payTo'', t),
                        (''network'', n)])
       \<and> handler_calls (createRevenueServer_listener rt config req) = []"
proof -
  have absent: "or_null (x_payment req) = None"
    using assms(4) by (simp add: or_null_None_iff)
  note answer = listener_payment_required [OF assms(1-3) absent, of rt]
  show ?thesis
  proof (intro conjI)
    show "createRevenueServer_listener rt config req =
           [WriteHead 402
              [(''Content-Type'', ''application/json''),
               (''X-Payment-Required'',
                  JSON_stringify rt (payment_challenge rt config service))],
            End (JSON_stringify rt (payment_required_body config service))]"
      by (rule answer)
    show "response_status (createRevenueServer_listener rt config req) = Some 402"
      unfolding answer by simp
    show "map_of (response_headers (createRevenueServer_listener rt config req))
             ''X-Payment-Required''
           = Some (JSON_stringify rt (payment_challenge rt config service))"
      unfolding answer by simp
    show "Option.bind
             (Option.bind (member ''accepts'' (payment_challenge rt config service))
                (element 0))
             (member ''maxAmountRequired'')
           = Some (JString (String_number rt
                (Math_ceil (number_times (priceUsdc service) (Finite 1000000)))))"
      by (rule challenge_amount)
    show "\<exists>e p c t n. payment_required_body config service
             = JObject [(''error'', e), (''price'', p), (''currency'', c), (''payTo'', t),
                        (''network'', n)]"
      by (simp add: payment_required_body_def)
    show "handler_calls (createRevenueServer_listener rt config req) = []"
      unfolding answer by simp
  qed
qed

text \<open>
  The witness: the chat service at the price \<open>0.001\<close> is challenged for \<open>"1000"\<close>, and
  the service at the price \<open>0.0079\<close> for \<open>"7901"\<close>.
\<close>

theorem C2_payment_required_witness:
  "find (\<lambda>s. path s = ''/api/chat'') (services example_config) = Some chat_service
   \<and> response_status (createRevenueServer_listener example_runtime example_config
         \<lparr> pathname = ''/api/chat'', x_payment = None, req_body = ''{}'' \<rparr>) = Some 402
   \<and> Option.bind
         (Option.bind
            (member ''accepts'' (payment_challenge example_runtime example_config chat_service))
            (element 0))
         (member ''maxAmountRequired'')
       = Some (JString ''1000'')
   \<and> find (\<lambda>s. path s = ''/api/report'') (services example_config) = Some report_service
   \<and> Option.bind
         (Option.bind
            (member ''accepts''
               (payment_challenge example_runtime example_config report_service))
            (element 0))
         (member ''maxAmountRequired'')
       = Some (JString ''7901'')"
proof -
  let ?chat = "\<lparr> pathname = ''/api/chat'', x_payment = None, req_body = ''{}'' \<rparr>"
  let ?report = "\<lparr> pathname = ''/api/report'', x_payment = None, req_body = ''{}'' \<rparr>"
  have found: "find (\<lambda>s. path s = pathname ?chat) (services example_config)
               = Some chat_service"
    by (simp add: example_config_def chat_service_def)
  have found': "find (\<lambda>s. path s = pathname ?report) (services example_config)
               = Some report_service"
    by (simp add: example_config_def chat_service_def failing_service_def report_service_def)
  have amount: "String_number example_runtime
                  (Math_ceil (number_times (priceUsdc chat_service) (Finite 1000000)))
                = ''1000''"
    by (simp add: chat_service_def amount_of_0_001 String_int_1000)
  have amount': "String_number example_runtime
                  (Math_ceil (number_times (priceUsdc report_service) (Finite 1000000)))
                = ''7901''"
    by (simp add: report_service_def amount_of_0_0079 String_int_7901)
  note chat = C2_payment_required [OF found, of example_runtime]
  note report = C2_payment_required [OF found', of example_runtime]
  have a: "response_status (createRevenueServer_listener example_runtime example_config ?chat)
          = Some 402"
    using chat by simp
  have b: "Option.bind
         (Option.bind
            (member ''accepts'' (payment_challenge example_runtime example_config chat_service))
            (element 0))
         (member ''maxAmountRequired'')
       = Some (JString ''1000'')"
    using chat amount by simp
  have c: "Option.bind
         (Option.bind
            (member ''accepts''
               (payment_challenge example_runtime example_config report_service))
            (element 0))
         (member ''maxAmountRequired'')
       = Some (JString ''7901'')"
    using report amount' by simp
  from found found' a b c show ?thesis by simp
qed

text \<open>
  C3 on the code: for a request to a configured service path (not a discovery path)
  whose \<open>X-Payment\<close> header is not empty and parses as JSON, the listener calls the
  service handler at once, and answers 200 with the handler's result when the handler
  completes. No signature, amount, deadline or redemption is checked: the parsed
  payment is only logged, and the effects are the same for every payment that parses.
\<close>

theorem C3_parsed_header_is_trusted:
  assumes "find (\<lambda>s. path s = pathname req) (services config) = Some service"
    and "pathname req \<noteq> ''/health''" and "pathname req \<noteq> ''/services''"
    and "x_payment req = Some h" and "h \<noteq> []" and "JSON_parse rt h = Some payment"
    and "handler service req (req_body req) = Inr result"
  shows "createRevenueServer_listener rt config req =
           [Logger_info, Handler_call (path service) (req_body req),
            WriteHead 200 json_content_type,
            End (JSON_stringify rt (JObject [(''result'', JString result)]))]"
  using listener_paid [OF assms(1-6)] assms(7) by simp

theorem C3_parsed_header_is_trusted_witness:
  "JSON_parse example_runtime ''{}'' = Some (JObject [])
   \<and> createRevenueServer_listener example_runtime example_config
        \<lparr> pathname = ''/api/chat'', x_payment = Some ''{}'', req_body = ''{}'' \<rparr>
       = [Logger_info, Handler_call ''/api/chat'' ''{}'',
          WriteHead 200 [(''Content-Type'', ''application/json'')],
          End (JSON_stringify example_runtime (JObject [(''result'', JString ''hi'')]))]"
proof -
  let ?req = "\<lparr> pathname = ''/api/chat'', x_payment = Some ''{}'', req_body = ''{}'' \<rparr>"
  have found: "find (\<lambda>s. path s = pathname ?req) (services example_config)
               = Some chat_service"
    by (simp add: example_config_def chat_service_def)
  have parsed: "JSON_parse example_runtime ''{}'' = Some (JObject [])"
    by (simp add: example_runtime_def)
  have answered: "handler chat_service ?req (req_body ?req) = Inr ''hi''"
    by (simp add: chat_service_def)
  have "createRevenueServer_listener example_runtime example_config ?req
        = [Logger_info, Handler_call (path chat_service) (req_body ?req),
           WriteHead 200 json_content_type,
           End (JSON_stringify example_runtime (JObject [(''result'', JString ''hi'')]))]"
    by (rule C3_parsed_header_is_trusted [OF found _ _ _ _ parsed answered]) simp_all
  then show ?thesis
    using parsed by (simp add: chat_service_def json_content_type_def)
qed

text \<open>
  C4, as stated, fails twice. A handler that throws is answered by the \<open>catch\<close> block
  that also answers a header that does not parse: status 400, not a 5xx status. And the
  listener never calls the tracker, so no earning is recorded when the handler
  completes either.
\<close>

theorem C4_handler_failure_counterexample:
  "handler failing_service
      \<lparr> pathname = ''/api/code'', x_payment = Some ''{}'', req_body = ''{}'' \<rparr> ''{}''
     = Inl (Error ''Inference error: 503: overloaded'')
   \<and> response_status (createRevenueServer_listener example_runtime example_config
         \<lparr> pathname = ''/api/code'', x_payment = Some ''{}'', req_body = ''{}'' \<rparr>) = Some 400
   \<and> handler chat_service
      \<lparr> pathname = ''/api/chat'', x_payment = Some ''{}'', req_body = ''{}'' \<rparr> ''{}''
     = Inr ''hi''
   \<and> response_status (createRevenueServer_listener example_runtime example_config
         \<lparr> pathname = ''/api/chat'', x_payment = Some ''{}'', req_body = ''{}'' \<rparr>) = Some 200
   \<and> recorded_earnings (createRevenueServer_listener example_runtime example_config
         \<lparr> pathname = ''/api/chat'', x_payment = Some ''{}'', req_body = ''{}'' \<rparr>) = []"
  by (simp add: createRevenueServer_listener_def example_config_def chat_service_def
      failing_service_def report_service_def example_runtime_def)

text \<open>
  C4 (amended): for every request, and so for every request to a configured service
  path with a payment assertion present, the listener makes no call to the Revenue
  Tracker: no earning is recorded on any branch, whether the handler fails or
  completes, and the tracker is as before. When the header parses and the handler
  completes, the answer is 200 with the handler's result.
\<close>

theorem C4_no_earnings_recorded:
  "recorded_earnings (createRevenueServer_listener rt config req) = []
   \<and> tracker_after (createRevenueServer_listener rt config req) t = t
   \<and> (find (\<lambda>s. path s = pathname req) (services config) = Some service
        \<and> pathname req \<noteq> ''/health'' \<and> pathname req \<noteq> ''/services''
        \<and> x_payment req = Some h \<and> h \<noteq> [] \<and> JSON_parse rt h = Some payment
        \<and> handler service req (req_body req) = Inr result
      \<longrightarrow> response_status (createRevenueServer_listener rt config req) = Some 200
          \<and> last (createRevenueServer_listener rt config req)
              = End (JSON_stringify rt (JObject [(''result'', JString result)])))"
proof (intro conjI impI)
  show "recorded_earnings (createRevenueServer_listener rt config req) = []"
    by (rule listener_records_nothing)
  then show "tracker_after (createRevenueServer_listener rt config req) t = t"
    by (rule tracker_after_no_earnings)
next
  assume paid: "find (\<lambda>s. path s = pathname req) (services config) = Some service
        \<and> pathname req \<noteq> ''/health'' \<and> pathname req \<noteq> ''/services''
        \<and> x_payment req = Some h \<and> h \<noteq> [] \<and> JSON_parse rt h = Some payment
        \<and> handler service req (req_body req) = Inr result"
  then have effects: "createRevenueServer_listener rt config req =
           [Logger_info, Handler_call (path service) (req_body req),
            WriteHead 200 json_content_type,
            End (JSON_stringify rt (JObject [(''result'', JString result)]))]"
    using listener_paid [of req config service h rt payment] by simp
  show "response_status (createRevenueServer_listener rt config req) = Some 200"
    unfolding effects by simp
  show "last (createRevenueServer_listener rt config req)
              = End (JSON_stringify rt (JObject [(''result'', JString result)]))"
    unfolding effects by simp
qed

theorem C4_no_earnings_recorded_witness:
  "handler failing_service
      \<lparr> pathname = ''/api/code'', x_payment = Some ''{}'', req_body = ''{}'' \<rparr> ''{}''
     = Inl (Error ''Inference error: 503: overloaded'')
   \<and> tracker_after (createRevenueServer_listener example_runtime example_config
         \<lparr> pathname = ''/api/code'', x_payment = Some ''{}'', req_body = ''{}'' \<rparr>)
        new_RevenueTracker = new_RevenueTracker
   \<and> response_status (createRevenueServer_listener example_runtime example_config
         \<lparr> pathname = ''/api/chat'', x_payment = Some ''{}'', req_body = ''{}'' \<rparr>) = Some 200
   \<and> tracker_after (createRevenueServer_listener example_runtime example_config
         \<lparr> pathname = ''/api/chat'', x_payment = Some ''{}'', req_body = ''{}'' \<rparr>)
        new_RevenueTracker = new_RevenueTracker"
proof -
  let ?code = "\<lparr> pathname = ''/api/code'', x_payment = Some ''{}'', req_body = ''{}'' \<rparr>"
  let ?chat = "\<lparr> pathname = ''/api/chat'', x_payment = Some ''{}'', req_body = ''{}'' \<rparr>"
  have fails: "handler failing_service ?code ''{}''
               = Inl (Error ''Inference error: 503: overloaded'')"
    by (simp add: failing_service_def)
  have found: "find (\<lambda>s. path s = pathname ?chat) (services example_config)
               = Some chat_service"
    by (simp add: example_config_def chat_service_def)
  have parsed: "JSON_parse example_runtime ''{}'' = Some (JObject [])"
    by (simp add: example_runtime_def)
  have answered: "handler chat_service ?chat (req_body ?chat) = Inr ''hi''"
    by (simp add: chat_service_def)
  note on_failure = C4_no_earnings_recorded [of example_runtime example_config ?code
      new_RevenueTracker chat_service "''{}''" "JObject []" "''hi''"]
  note on_success = C4_no_earnings_recorded [of example_runtime example_config ?chat
      new_RevenueTracker chat_service "''{}''" "JObject []" "''hi''"]
  have a: "tracker_after (createRevenueServer_listener example_runtime example_config ?code)
        new_RevenueTracker = new_RevenueTracker"
    by (rule conjunct1 [OF conjunct2 [OF on_failure]])
  have b: "tracker_after (createRevenueServer_listener example_runtime example_config ?chat)
        new_RevenueTracker = new_RevenueTracker"
    by (rule conjunct1 [OF conjunct2 [OF on_success]])
  have c: "response_status (createRevenueServer_listener example_runtime example_config ?chat)
        = Some 200"
    using conjunct2 [OF conjunct2 [OF on_success]] found parsed answered by simp
  from fails a b c show ?thesis by (simp only: simp_thms)
qed

end
